theory Spec2Isabelle
  imports Main "HOL-Library.Char_ord" "HOL-Library.List_Lexorder"
begin

section \<open>The scoring logic of \<open>hooks/useGame.ts\<close>\<close>

text \<open>
  The hook \<open>useGame\<close> keeps five pieces of React state and exposes, among others, the
  closure \<open>getPossibleScores\<close>, which reads the state and returns one option record per
  scoring category. JavaScript numbers are modelled as \<open>int\<close> (the dice, the scores) or
  \<open>nat\<close> (occurrence counts, which start at 1 and are only incremented), strings as
  \<open>string\<close>. The program computes with doubles: the model's sums are the program's as
  long as the dice and the running sums are integers of absolute value below \<open>2^53\<close>
  (the predicate \<open>exact_hand\<close> below), and its decimal strings are the program's for
  integers of absolute value below \<open>10^21\<close>; the properties that range over hands other
  than five dice from 1 to 6 assume \<open>exact_hand\<close>. The \<open>console.log\<close> calls write to
  the console only and do not influence a returned value; they are left out.
\<close>

subsection \<open>State\<close>

text \<open>
  The score sheet, with the fields of the object literal passed to \<open>useState\<close>: a category
  holds \<open>null\<close> (\<open>None\<close>) or a number; the three totals and the bonus hold numbers.
\<close>

record ScoreSheet =
  ones :: "int option"
  twos :: "int option"
  threes :: "int option"
  fours :: "int option"
  fives :: "int option"
  sixes :: "int option"
  upperBonus :: int
  upperTotal :: int
  threeOfkind :: "int option"
  fourOfkind :: "int option"
  fullHouse :: "int option"
  smallStraight :: "int option"
  largeStraight :: "int option"
  yahtzee :: "int option"
  chance :: "int option"
  lowerTotal :: int

record GameState =
  dice :: "int list"
  selectedDice :: "int list"
  rollsLeft :: int
  currentRound :: int
  scoreSheet :: ScoreSheet
  gameComplete :: bool
  totalScore :: int

text \<open>
  \<open>PossibleScores\<close> is declared in \<open>services/gameApi\<close>; the hook only reads properties of
  it by name, so it is an object from property names to numbers.
\<close>

type_synonym PossibleScores = "string \<rightharpoonup> int"

record HookState =
  gameState :: GameState
  currentGameId :: "int option"
  possibleScores :: "PossibleScores option"
  loading :: bool
  error :: "string option"

text \<open>The initial values given to the five \<open>useState\<close> calls.\<close>

definition initial_scoreSheet :: ScoreSheet where
  "initial_scoreSheet =
     \<lparr>ones = None, twos = None, threes = None, fours = None, fives = None, sixes = None,
      upperBonus = 0, upperTotal = 0,
      threeOfkind = None, fourOfkind = None, fullHouse = None,
      smallStraight = None, largeStraight = None, yahtzee = None, chance = None,
      lowerTotal = 0\<rparr>"

definition initial_gameState :: GameState where
  "initial_gameState =
     \<lparr>dice = [1, 1, 1, 1, 1], selectedDice = [], rollsLeft = 3, currentRound = 1,
      scoreSheet = initial_scoreSheet, gameComplete = False, totalScore = 0\<rparr>"

definition initial_state :: HookState where
  "initial_state =
     \<lparr>gameState = initial_gameState, currentGameId = None, possibleScores = None,
      loading = False, error = None\<rparr>"

subsection \<open>Property access\<close>

text \<open>
  \<open>gameState.scoreSheet[category]\<close> reads a property by a computed name. A property the
  object does not have reads as \<open>undefined\<close>, which is not \<open>null\<close>.
\<close>

datatype js_value = Undefined | Null | Number int

definition nullable :: "int option \<Rightarrow> js_value" where
  "nullable v = (case v of None \<Rightarrow> Null | Some n \<Rightarrow> Number n)"

definition scoreSheet_get :: "ScoreSheet \<Rightarrow> string \<Rightarrow> js_value" where
  "scoreSheet_get s k =
     (if k = ''ones'' then nullable (ones s)
      else if k = ''twos'' then nullable (twos s)
      else if k = ''threes'' then nullable (threes s)
      else if k = ''fours'' then nullable (fours s)
      else if k = ''fives'' then nullable (fives s)
      else if k = ''sixes'' then nullable (sixes s)
      else if k = ''upperBonus'' then Number (upperBonus s)
      else if k = ''upperTotal'' then Number (upperTotal s)
      else if k = ''threeOfkind'' then nullable (threeOfkind s)
      else if k = ''fourOfkind'' then nullable (fourOfkind s)
      else if k = ''fullHouse'' then nullable (fullHouse s)
      else if k = ''smallStraight'' then nullable (smallStraight s)
      else if k = ''largeStraight'' then nullable (largeStraight s)
      else if k = ''yahtzee'' then nullable (yahtzee s)
      else if k = ''chance'' then nullable (chance s)
      else if k = ''lowerTotal'' then Number (lowerTotal s)
      else Undefined)"

subsection \<open>The tables of \<open>getPossibleScores\<close>\<close>

text \<open>The array \<open>categories\<close>: identifier and display name, in the order of the source.\<close>

definition categories :: "(string \<times> string) list" where
  "categories =
     [(''ones'', ''Ones''),
      (''twos'', ''Twos''),
      (''threes'', ''Threes''),
      (''fours'', ''Fours''),
      (''fives'', ''Fives''),
      (''sixes'', ''Sixes''),
      (''threeOfkind'', ''Three of a Kind''),
      (''fouroOkind'', ''Four of a Kind''),
      (''fullHouse'', ''Full House''),
      (''smallStraight'', ''Small Straight''),
      (''largeStraight'', ''Large Straight''),
      (''yahtzee'', ''YAHTZEE!''),
      (''chance'', ''Chance'')]"

text \<open>
  The object \<open>scoreMap\<close>. Its type \<open>{ [key in ScoreCategory]: keyof PossibleScores }\<close> makes
  its keys exactly the members of the union type \<open>ScoreCategory\<close> (declared in
  \<open>game/gameTypes\<close>), so the keys are also the list of category identifiers of the program.
\<close>

definition scoreMap :: "(string \<times> string) list" where
  "scoreMap =
     [(''ones'', ''ones''),
      (''twos'', ''twos''),
      (''threes'', ''threes''),
      (''fours'', ''fours''),
      (''fives'', ''fives''),
      (''sixes'', ''sixes''),
      (''threeOfkind'', ''threeOfkind''),
      (''fourOfkind'', ''fourOfkind''),
      (''fullHouse'', ''fullHouse''),
      (''smallStraight'', ''smallStraight''),
      (''largeStraight'', ''largeStraight''),
      (''yahtzee'', ''yahtzee''),
      (''chance'', ''chance'')]"

definition ScoreCategory :: "string list" where
  "ScoreCategory = map fst scoreMap"

text \<open>
  \<open>possibleScores[scoreMap[category]]\<close>: a missing key of \<open>scoreMap\<close> gives \<open>undefined\<close>,
  and \<open>undefined\<close> used as a property name is the string \<open>undefined\<close>.
\<close>

definition scoreMap_key :: "string \<Rightarrow> string" where
  "scoreMap_key category =
     (case map_of scoreMap category of None \<Rightarrow> ''undefined'' | Some k \<Rightarrow> k)"

subsection \<open>The helpers of \<open>calculateLocalScore\<close>\<close>

text \<open>
  The reducer \<open>acc[die] = (acc[die] || 0) + 1\<close> on an object that starts empty. The object
  is kept as the list of its properties in the order of their creation.
\<close>

fun count_die :: "(int \<times> nat) list \<Rightarrow> int \<Rightarrow> (int \<times> nat) list" where
  "count_die [] die = [(die, 0 + 1)]"
| "count_die ((k, c) # acc) die =
     (if k = die then (k, c + 1) # acc else (k, c) # count_die acc die)"

text \<open>
  \<open>Object.values\<close> lists the properties whose names are array indices (the integers from 0
  to \<open>2^32 - 2\<close>) in ascending order first, and then the others in the order of creation.
\<close>

definition is_array_index :: "int \<Rightarrow> bool" where
  "is_array_index k \<longleftrightarrow> 0 \<le> k \<and> k < 2 ^ 32 - 1"

definition object_values :: "(int \<times> nat) list \<Rightarrow> nat list" where
  "object_values obj =
     map snd (sort_key fst (filter (\<lambda>p. is_array_index (fst p)) obj)) @
     map snd (filter (\<lambda>p. \<not> is_array_index (fst p)) obj)"

text \<open>
  The decimal string of a number, as \<open>join\<close> and the default \<open>sort\<close> produce it for an
  integer of absolute value below \<open>10^21\<close> (from there on JavaScript prints an exponent).
\<close>

fun digits :: "nat \<Rightarrow> string" where
  "digits n =
     (if n < 10 then [''0123456789'' ! n]
      else digits (n div 10) @ [''0123456789'' ! (n mod 10)])"

declare digits.simps [simp del]

definition toString :: "int \<Rightarrow> string" where
  "toString i = (if i < 0 then CHR ''-'' # digits (nat (- i)) else digits (nat i))"

definition join :: "int list \<Rightarrow> string" where
  "join xs = concat (map toString xs)"

text \<open>
  \<open>sort()\<close> without a comparison function orders the elements by their strings, compared
  code unit by code unit; it is stable.
\<close>

definition js_sort :: "nat list \<Rightarrow> nat list" where
  "js_sort xs = sort_key (\<lambda>c. toString (int c)) xs"

text \<open>\<open>[...new Set(xs)]\<close> keeps the first occurrence of every element.\<close>

definition unique_of :: "int list \<Rightarrow> int list" where
  "unique_of xs = foldl (\<lambda>acc x. if x \<in> set acc then acc else acc @ [x]) [] xs"

text \<open>\<open>s.includes(t)\<close>: \<open>t\<close> occurs in \<open>s\<close> as a contiguous substring.\<close>

fun starts_with :: "string \<Rightarrow> string \<Rightarrow> bool" where
  "starts_with s [] = True"
| "starts_with [] (c # t) = False"
| "starts_with (d # s) (c # t) = (d = c \<and> starts_with s t)"

fun includes_str :: "string \<Rightarrow> string \<Rightarrow> bool" where
  "includes_str [] t = (t = [])"
| "includes_str (d # s) t = (starts_with (d # s) t \<or> includes_str s t)"

subsection \<open>\<open>calculateLocalScore\<close>\<close>

text \<open>
  The \<open>switch\<close> compares the category with its case labels in the order of the source and
  returns from the first that matches; \<open>default\<close> returns 0.
\<close>

definition calculateLocalScore :: "int list \<Rightarrow> string \<Rightarrow> int" where
  "calculateLocalScore ds category =
     (let counts = foldl count_die [] ds;
          sorted = sort ds;
          sum = foldl (+) 0 ds
      in
        if category = ''ones'' then int (length (filter (\<lambda>d. d = 1) ds)) * 1
        else if category = ''twos'' then int (length (filter (\<lambda>d. d = 2) ds)) * 2
        else if category = ''threes'' then int (length (filter (\<lambda>d. d = 3) ds)) * 3
        else if category = ''fours'' then int (length (filter (\<lambda>d. d = 4) ds)) * 4
        else if category = ''fives'' then int (length (filter (\<lambda>d. d = 5) ds)) * 5
        else if category = ''sixes'' then int (length (filter (\<lambda>d. d = 6) ds)) * 6
        else if category = ''threeofkind'' then
          (if list_ex (\<lambda>c. c \<ge> 3) (object_values counts) then sum else 0)
        else if category = ''fourofkind'' then
          (if list_ex (\<lambda>c. c \<ge> 4) (object_values counts) then sum else 0)
        else if category = ''fullhouse'' then
          (let values = js_sort (object_values counts)
           in if length values = 2 \<and> values ! 0 = 2 \<and> values ! 1 = 3 then 25 else 0)
        else if category = ''smallstraight'' then
          (let unique = unique_of sorted;
               straights = [''1234'', ''2345'', ''3456''];
               diceString = join unique
           in if list_ex (\<lambda>straight. includes_str diceString straight) straights then 30 else 0)
        else if category = ''largestraight'' then
          (let unique = unique_of sorted
           in if length unique = 5 \<and> (join unique = ''12345'' \<or> join unique = ''23456'')
              then 40 else 0)
        else if category = ''yahtzee'' then
          (if list_ex (\<lambda>c. c = 5) (object_values counts) then 50 else 0)
        else if category = ''chance'' then sum
        else 0)"

subsection \<open>\<open>getPossibleScores\<close>\<close>

record CategoryScoreOption =
  category :: string
  name :: string
  score :: int
  isAvailable :: bool

text \<open>
  The callback of \<open>categories.map\<close>: the score is the one of \<open>possibleScores\<close> when that
  state is not \<open>null\<close> and has the property, and the local calculation otherwise.
\<close>

definition score_option :: "HookState \<Rightarrow> string \<times> string \<Rightarrow> CategoryScoreOption" where
  "score_option st entry =
     (case entry of (cat, nm) \<Rightarrow>
        let sc =
              (case possibleScores st of
                 None \<Rightarrow> calculateLocalScore (dice (gameState st)) cat
               | Some ps \<Rightarrow>
                   (case ps (scoreMap_key cat) of
                      Some v \<Rightarrow> v
                    | None \<Rightarrow> calculateLocalScore (dice (gameState st)) cat));
            avail = (scoreSheet_get (scoreSheet (gameState st)) cat = Null)
        in \<lparr>category = cat, name = nm, score = sc, isAvailable = avail\<rparr>)"

definition getPossibleScores :: "HookState \<Rightarrow> CategoryScoreOption list" where
  "getPossibleScores st = map (score_option st) categories"

subsection \<open>How a call ends\<close>

text \<open>
  Neither function contains a \<open>throw\<close>, and what they call (\<open>reduce\<close> with an initial
  value, \<open>filter\<close>, \<open>sort\<close>, \<open>some\<close>, \<open>join\<close>, \<open>includes\<close>, \<open>map\<close>, property reads on
  objects) does not throw on arrays of numbers and on strings: every path through either
  body reaches a \<open>return\<close>. Written as a result that could also be a failure, a call is
  therefore always the \<open>Inr\<close> of the returned value. The two failures are the ones a caller
  might expect of a scoring routine; no statement of the source produces either.
\<close>

datatype error = InvalidHand | UnknownCategory

definition calculateLocalScore_result :: "int list \<Rightarrow> string \<Rightarrow> error + int" where
  "calculateLocalScore_result ds c = Inr (calculateLocalScore ds c)"

definition getPossibleScores_result :: "HookState \<Rightarrow> error + CategoryScoreOption list" where
  "getPossibleScores_result st = Inr (getPossibleScores st)"

subsection \<open>Vocabulary of the properties\<close>

text \<open>A hand as the game rolls it: five dice, each from 1 to 6.\<close>

definition valid_hand :: "int list \<Rightarrow> bool" where
  "valid_hand ds \<longleftrightarrow> length ds = 5 \<and> list_all (\<lambda>d. 1 \<le> d \<and> d \<le> 6) ds"

text \<open>
  Where \<open>int\<close> is the program's arithmetic. JavaScript numbers are doubles: every integer
  of absolute value up to \<open>2^53 - 1\<close> (\<open>Number.MAX_SAFE_INTEGER\<close>) is a double, and a sum of
  two of them that is again in that range is computed exactly. A hand is exact when it
  fits an array and its dice and all the running sums of \<open>reduce\<close>, which starts from 0,
  are in that range; on an exact hand the sums and comparisons of the model are those of
  the program. Every valid hand is exact.
\<close>

definition max_safe_integer :: int where
  "max_safe_integer = 2 ^ 53 - 1"

fun safe_sums :: "int \<Rightarrow> int list \<Rightarrow> bool" where
  "safe_sums a [] = (\<bar>a\<bar> \<le> max_safe_integer)"
| "safe_sums a (d # ds) =
     (\<bar>a\<bar> \<le> max_safe_integer \<and> \<bar>d\<bar> \<le> max_safe_integer \<and> safe_sums (a + d) ds)"

definition exact_hand :: "int list \<Rightarrow> bool" where
  "exact_hand ds \<longleftrightarrow> length ds < 2 ^ 32 \<and> safe_sums 0 ds"

text \<open>
  The fetched score for a property name: none when nothing has been fetched
  (\<open>possibleScores\<close> is \<open>null\<close>) and none when the fetched object lacks the property.
\<close>

definition fetched :: "PossibleScores option \<Rightarrow> string \<Rightarrow> int option" where
  "fetched cache k = (case cache of None \<Rightarrow> None | Some ps \<Rightarrow> ps k)"

text \<open>The scores of the entries that carry a given category identifier.\<close>

definition scores_of :: "string \<Rightarrow> CategoryScoreOption list \<Rightarrow> int list" where
  "scores_of c opts = map score (filter (\<lambda>e. category e = c) opts)"

text \<open>The case labels of the \<open>switch\<close> in \<open>calculateLocalScore\<close>.\<close>

definition case_labels :: "string list" where
  "case_labels =
     [''ones'', ''twos'', ''threes'', ''fours'', ''fives'', ''sixes'', ''threeofkind'',
      ''fourofkind'', ''fullhouse'', ''smallstraight'', ''largestraight'', ''yahtzee'',
      ''chance'']"

text \<open>
  The count an object of occurrence counts holds for a key (0 when it has no such
  property), and what the reducer maintains: one property per key, every count positive.
\<close>

definition stored :: "(int \<times> nat) list \<Rightarrow> int \<Rightarrow> nat" where
  "stored acc k = (case map_of acc k of None \<Rightarrow> 0 | Some c \<Rightarrow> c)"

definition counts_inv :: "(int \<times> nat) list \<Rightarrow> bool" where
  "counts_inv acc \<longleftrightarrow> distinct (map fst acc) \<and> list_all (\<lambda>p. 0 < snd p) acc"

text \<open>
  States used as concrete inputs: the initial state with other dice (a roll whose scores
  have not been fetched, or whose fetch failed), the initial state with fetched scores,
  and a state that differs from the initial one in everything but dice, sheet and
  fetched scores.
\<close>

definition with_dice :: "int list \<Rightarrow> HookState" where
  "with_dice ds = initial_state\<lparr>gameState := (gameState initial_state)\<lparr>dice := ds\<rparr>\<rparr>"

definition with_remote :: "PossibleScores \<Rightarrow> HookState" where
  "with_remote ps = initial_state\<lparr>possibleScores := Some ps\<rparr>"

definition remote_scores_11111 :: PossibleScores where
  "remote_scores_11111 =
     map_of [(''ones'', 5), (''twos'', 0), (''threes'', 0), (''fours'', 0), (''fives'', 0),
             (''sixes'', 0), (''threeOfkind'', 5), (''fourOfkind'', 5), (''fullHouse'', 0),
             (''smallStraight'', 0), (''largeStraight'', 0), (''yahtzee'', 50),
             (''chance'', 5)]"

definition busy_state :: HookState where
  "busy_state =
     \<lparr>gameState = initial_gameState\<lparr>selectedDice := [0, 2], rollsLeft := 1, currentRound := 4,
        totalScore := 31\<rparr>,
      currentGameId = Some 7, possibleScores = None, loading = True,
      error = Some ''An error occurred''\<rparr>"

text \<open>
  States in which the fetched scores and the dice do not belong together: the scores
  fetched for an earlier roll are still in \<open>possibleScores\<close> when the next roll has put new
  dice into \<open>gameState\<close> and the new fetch has not completed. Also a fetched object that
  has only some of the properties.
\<close>

definition stale_state :: "int list \<Rightarrow> PossibleScores \<Rightarrow> HookState" where
  "stale_state ds ps =
     initial_state\<lparr>gameState := (gameState initial_state)\<lparr>dice := ds\<rparr>,
       possibleScores := Some ps\<rparr>"

definition remote_scores_66662 :: PossibleScores where
  "remote_scores_66662 =
     map_of [(''ones'', 0), (''twos'', 2), (''threes'', 0), (''fours'', 0), (''fives'', 0),
             (''sixes'', 24), (''threeOfkind'', 26), (''fourOfkind'', 26), (''fullHouse'', 0),
             (''smallStraight'', 0), (''largeStraight'', 0), (''yahtzee'', 0),
             (''chance'', 26)]"

definition remote_scores_partial :: PossibleScores where
  "remote_scores_partial = map_of [(''threeOfkind'', 26), (''fourOfkind'', 26)]"

section \<open>Properties\<close>

subsection \<open>The occurrence counts\<close>

lemma fst_count_die: "fst ` set (count_die acc d) = insert d (fst ` set acc)"
  by (induction acc d rule: count_die.induct) auto

lemma stored_count_die: "stored (count_die acc d) k = stored acc k + (if k = d then 1 else 0)"
  by (induction acc d rule: count_die.induct) (auto simp: stored_def)

lemma counts_inv_count_die: "counts_inv acc \<Longrightarrow> counts_inv (count_die acc d)"
proof (induction acc d rule: count_die.induct)
  case (1 die)
  then show ?case by (simp add: counts_inv_def)
next
  case (2 k c acc die)
  then have "counts_inv acc" by (simp add: counts_inv_def)
  with 2 show ?case
    using fst_count_die [of acc die] by (auto simp: counts_inv_def)
qed

lemma foldl_count_die:
  "counts_inv acc \<Longrightarrow>
     counts_inv (foldl count_die acc ds) \<and>
     (\<forall>k. stored (foldl count_die acc ds) k = stored acc k + count_list ds k)"
proof (induction ds arbitrary: acc)
  case Nil
  then show ?case by simp
next
  case (Cons d ds)
  from Cons.IH [OF counts_inv_count_die [OF Cons.prems]]
  show ?case by (auto simp: stored_count_die)
qed

lemma counts_inv_mem:
  assumes "counts_inv acc"
  shows "(k, c) \<in> set acc \<longleftrightarrow> 0 < c \<and> stored acc k = c"
proof -
  from assms have d: "distinct (map fst acc)" and p: "\<forall>p \<in> set acc. 0 < snd p"
    by (simp_all add: counts_inv_def list_all_iff)
  have "(k, c) \<in> set acc \<longleftrightarrow> map_of acc k = Some c"
    using d by simp
  moreover have "0 < c" if "map_of acc k = Some c"
  proof -
    from that have "(k, c) \<in> set acc" by (rule map_of_SomeD)
    with p show ?thesis by fastforce
  qed
  ultimately show ?thesis
    by (auto simp: stored_def split: option.splits)
qed

lemma set_counts: "set (foldl count_die [] ds) = {(k, c). 0 < c \<and> count_list ds k = c}"
proof -
  have inv: "counts_inv []" by (simp add: counts_inv_def)
  have st: "stored [] k = 0" for k by (simp add: stored_def)
  show ?thesis
    using foldl_count_die [OF inv, of ds] counts_inv_mem [of "foldl count_die [] ds"]
    by (auto simp: st)
qed

lemma set_object_values: "set (object_values obj) = snd ` set obj"
  by (auto simp: object_values_def)

lemma values_counts:
  "set (object_values (foldl count_die [] ds)) = {c. 0 < c \<and> (\<exists>k. count_list ds k = c)}"
  by (auto simp: set_object_values set_counts image_iff)

lemma count_list_full: "count_list ds k = length ds \<longleftrightarrow> set ds \<subseteq> {k}"
proof (induction ds)
  case Nil
  then show ?case by simp
next
  case (Cons d ds)
  have "count_list ds k \<le> length ds" by (rule count_le_length)
  with Cons show ?case by auto
qed

lemma foldl_plus: "foldl (+) a ds = a + sum_list (ds :: int list)"
  by (induction ds arbitrary: a) auto

lemma length_filter_eq: "length (filter (\<lambda>d. d = n) ds) = count_list ds n"
  by (induction ds) auto

subsection \<open>\<open>calculateLocalScore\<close>, case by case\<close>

lemma upper_local:
  "calculateLocalScore ds ''ones'' = int (count_list ds 1) * 1"
  "calculateLocalScore ds ''twos'' = int (count_list ds 2) * 2"
  "calculateLocalScore ds ''threes'' = int (count_list ds 3) * 3"
  "calculateLocalScore ds ''fours'' = int (count_list ds 4) * 4"
  "calculateLocalScore ds ''fives'' = int (count_list ds 5) * 5"
  "calculateLocalScore ds ''sixes'' = int (count_list ds 6) * 6"
  by (simp_all add: calculateLocalScore_def length_filter_eq)

lemma chance_local: "calculateLocalScore ds ''chance'' = sum_list ds"
  by (simp add: calculateLocalScore_def foldl_plus)

text \<open>
  Under the lower-case labels the \<open>switch\<close> implements the of-a-kind rules: the sum of
  the dice when some value occurs often enough.
\<close>

lemma of_a_kind_local:
  "calculateLocalScore ds ''threeofkind'' = (if \<exists>k. 3 \<le> count_list ds k then sum_list ds else 0)"
  "calculateLocalScore ds ''fourofkind'' = (if \<exists>k. 4 \<le> count_list ds k then sum_list ds else 0)"
proof -
  have "list_ex (\<lambda>c. n \<le> c) (object_values (foldl count_die [] ds)) \<longleftrightarrow>
          (\<exists>k. n \<le> count_list ds k)" if "0 < n" for n
  proof
    assume "list_ex (\<lambda>c. n \<le> c) (object_values (foldl count_die [] ds))"
    then show "\<exists>k. n \<le> count_list ds k"
      by (auto simp: list_ex_iff values_counts)
  next
    assume "\<exists>k. n \<le> count_list ds k"
    then obtain k where k: "n \<le> count_list ds k" ..
    with that have "0 < count_list ds k" by simp
    then have "count_list ds k \<in> set (object_values (foldl count_die [] ds))"
      unfolding values_counts by blast
    with k show "list_ex (\<lambda>c. n \<le> c) (object_values (foldl count_die [] ds))"
      unfolding list_ex_iff by blast
  qed
  from this [of 3] this [of 4]
  show "calculateLocalScore ds ''threeofkind'' =
          (if \<exists>k. 3 \<le> count_list ds k then sum_list ds else 0)"
    and "calculateLocalScore ds ''fourofkind'' =
          (if \<exists>k. 4 \<le> count_list ds k then sum_list ds else 0)"
    by (simp_all add: calculateLocalScore_def foldl_plus)
qed

lemma yahtzee_local:
  assumes "length ds = 5"
  shows "calculateLocalScore ds ''yahtzee'' = (if \<exists>v. \<forall>d \<in> set ds. d = v then 50 else 0)"
proof -
  have "list_ex (\<lambda>c. c = 5) (object_values (foldl count_die [] ds)) \<longleftrightarrow>
          (\<exists>k. count_list ds k = 5)"
    by (auto simp: list_ex_iff values_counts)
  also have "\<dots> \<longleftrightarrow> (\<exists>k. set ds \<subseteq> {k})"
    using count_list_full [of ds] assms by simp
  also have "\<dots> \<longleftrightarrow> (\<exists>v. \<forall>d \<in> set ds. d = v)"
    by auto
  finally show ?thesis
    by (simp add: calculateLocalScore_def)
qed

lemma no_case_local: "c \<notin> set case_labels \<Longrightarrow> calculateLocalScore ds c = 0"
  by (simp add: calculateLocalScore_def case_labels_def)

subsection \<open>\<open>getPossibleScores\<close>, entry by entry\<close>

lemma length_getPossibleScores: "length (getPossibleScores st) = 13"
  by (simp add: getPossibleScores_def categories_def)

lemma category_getPossibleScores: "map category (getPossibleScores st) = map fst categories"
  by (simp add: getPossibleScores_def score_option_def split_def comp_def)

lemma scores_of_local:
  "possibleScores st = None \<Longrightarrow>
     scores_of c (getPossibleScores st) =
       (if c \<in> set (map fst categories) then [calculateLocalScore (dice (gameState st)) c]
        else [])"
  by (simp add: scores_of_def getPossibleScores_def categories_def score_option_def)

text \<open>
  The identifiers that \<open>getPossibleScores\<close> passes on are not among the case labels, so
  without fetched scores these five entries score 0 whatever the dice are.
\<close>

lemma camel_case_entries:
  assumes "possibleScores st = None"
  shows "map (\<lambda>e. (name e, score e))
           (filter (\<lambda>e. category e \<notin> set case_labels) (getPossibleScores st)) =
         [(''Three of a Kind'', 0), (''Four of a Kind'', 0), (''Full House'', 0),
          (''Small Straight'', 0), (''Large Straight'', 0)]"
  using assms
  by (simp add: getPossibleScores_def categories_def score_option_def case_labels_def
      no_case_local)

text \<open>
  Availability, entry by entry: the sheet decides it for twelve entries, and the entry
  named \<open>Four of a Kind\<close> is never available, since the sheet has no property
  \<open>fouroOkind\<close>.
\<close>

lemma isAvailable_entries:
  "map (\<lambda>e. (name e, isAvailable e)) (getPossibleScores st) =
     (let sh = scoreSheet (gameState st) in
      [(''Ones'', ones sh = None), (''Twos'', twos sh = None), (''Threes'', threes sh = None),
       (''Fours'', fours sh = None), (''Fives'', fives sh = None), (''Sixes'', sixes sh = None),
       (''Three of a Kind'', threeOfkind sh = None), (''Four of a Kind'', False),
       (''Full House'', fullHouse sh = None), (''Small Straight'', smallStraight sh = None),
       (''Large Straight'', largeStraight sh = None), (''YAHTZEE!'', yahtzee sh = None),
       (''Chance'', chance sh = None)])"
  by (simp add: getPossibleScores_def categories_def score_option_def scoreSheet_get_def
      nullable_def Let_def split: option.splits)

subsection \<open>Entries with and without fetched scores\<close>

lemma yahtzee_local_any:
  "calculateLocalScore ds ''yahtzee'' = (if \<exists>k. count_list ds k = 5 then 50 else 0)"
proof -
  have "list_ex (\<lambda>c. c = 5) (object_values (foldl count_die [] ds)) \<longleftrightarrow>
          (\<exists>k. count_list ds k = 5)"
    by (auto simp: list_ex_iff values_counts)
  then show ?thesis
    by (simp add: calculateLocalScore_def)
qed

text \<open>
  The score of an entry is the fetched score under the property name that \<open>scoreMap\<close>
  gives for the identifier when there is one, and the local score otherwise.
\<close>

lemma score_of_score_option:
  "score (score_option st (c, n)) =
     (case fetched (possibleScores st) (scoreMap_key c) of
        Some v \<Rightarrow> v
      | None \<Rightarrow> calculateLocalScore (dice (gameState st)) c)"
  by (simp add: score_option_def fetched_def split: option.splits)

lemma scores_of_entry:
  "scores_of ''ones'' (getPossibleScores st) =
     [case fetched (possibleScores st) ''ones'' of
        Some v \<Rightarrow> v | None \<Rightarrow> calculateLocalScore (dice (gameState st)) ''ones'']"
  "scores_of ''twos'' (getPossibleScores st) =
     [case fetched (possibleScores st) ''twos'' of
        Some v \<Rightarrow> v | None \<Rightarrow> calculateLocalScore (dice (gameState st)) ''twos'']"
  "scores_of ''threes'' (getPossibleScores st) =
     [case fetched (possibleScores st) ''threes'' of
        Some v \<Rightarrow> v | None \<Rightarrow> calculateLocalScore (dice (gameState st)) ''threes'']"
  "scores_of ''fours'' (getPossibleScores st) =
     [case fetched (possibleScores st) ''fours'' of
        Some v \<Rightarrow> v | None \<Rightarrow> calculateLocalScore (dice (gameState st)) ''fours'']"
  "scores_of ''fives'' (getPossibleScores st) =
     [case fetched (possibleScores st) ''fives'' of
        Some v \<Rightarrow> v | None \<Rightarrow> calculateLocalScore (dice (gameState st)) ''fives'']"
  "scores_of ''sixes'' (getPossibleScores st) =
     [case fetched (possibleScores st) ''sixes'' of
        Some v \<Rightarrow> v | None \<Rightarrow> calculateLocalScore (dice (gameState st)) ''sixes'']"
  "scores_of ''yahtzee'' (getPossibleScores st) =
     [case fetched (possibleScores st) ''yahtzee'' of
        Some v \<Rightarrow> v | None \<Rightarrow> calculateLocalScore (dice (gameState st)) ''yahtzee'']"
  "scores_of ''chance'' (getPossibleScores st) =
     [case fetched (possibleScores st) ''chance'' of
        Some v \<Rightarrow> v | None \<Rightarrow> calculateLocalScore (dice (gameState st)) ''chance'']"
proof -
  have cat: "category (score_option st (c, n)) = c" for c n
    by (simp add: score_option_def)
  have key: "scoreMap_key ''ones'' = ''ones''" "scoreMap_key ''twos'' = ''twos''"
    "scoreMap_key ''threes'' = ''threes''" "scoreMap_key ''fours'' = ''fours''"
    "scoreMap_key ''fives'' = ''fives''" "scoreMap_key ''sixes'' = ''sixes''"
    "scoreMap_key ''yahtzee'' = ''yahtzee''" "scoreMap_key ''chance'' = ''chance''"
    by (simp_all add: scoreMap_key_def scoreMap_def)
  note defs = scores_of_def getPossibleScores_def categories_def cat score_of_score_option key
  show "scores_of ''ones'' (getPossibleScores st) =
     [case fetched (possibleScores st) ''ones'' of
        Some v \<Rightarrow> v | None \<Rightarrow> calculateLocalScore (dice (gameState st)) ''ones'']"
    by (simp add: defs)
  show "scores_of ''twos'' (getPossibleScores st) =
     [case fetched (possibleScores st) ''twos'' of
        Some v \<Rightarrow> v | None \<Rightarrow> calculateLocalScore (dice (gameState st)) ''twos'']"
    by (simp add: defs)
  show "scores_of ''threes'' (getPossibleScores st) =
     [case fetched (possibleScores st) ''threes'' of
        Some v \<Rightarrow> v | None \<Rightarrow> calculateLocalScore (dice (gameState st)) ''threes'']"
    by (simp add: defs)
  show "scores_of ''fours'' (getPossibleScores st) =
     [case fetched (possibleScores st) ''fours'' of
        Some v \<Rightarrow> v | None \<Rightarrow> calculateLocalScore (dice (gameState st)) ''fours'']"
    by (simp add: defs)
  show "scores_of ''fives'' (getPossibleScores st) =
     [case fetched (possibleScores st) ''fives'' of
        Some v \<Rightarrow> v | None \<Rightarrow> calculateLocalScore (dice (gameState st)) ''fives'']"
    by (simp add: defs)
  show "scores_of ''sixes'' (getPossibleScores st) =
     [case fetched (possibleScores st) ''sixes'' of
        Some v \<Rightarrow> v | None \<Rightarrow> calculateLocalScore (dice (gameState st)) ''sixes'']"
    by (simp add: defs)
  show "scores_of ''yahtzee'' (getPossibleScores st) =
     [case fetched (possibleScores st) ''yahtzee'' of
        Some v \<Rightarrow> v | None \<Rightarrow> calculateLocalScore (dice (gameState st)) ''yahtzee'']"
    by (simp add: defs)
  show "scores_of ''chance'' (getPossibleScores st) =
     [case fetched (possibleScores st) ''chance'' of
        Some v \<Rightarrow> v | None \<Rightarrow> calculateLocalScore (dice (gameState st)) ''chance'']"
    by (simp add: defs)
qed

lemma scoreMap_key_simps:
  "scoreMap_key ''ones'' = ''ones''"
  "scoreMap_key ''twos'' = ''twos''"
  "scoreMap_key ''threes'' = ''threes''"
  "scoreMap_key ''fours'' = ''fours''"
  "scoreMap_key ''fives'' = ''fives''"
  "scoreMap_key ''sixes'' = ''sixes''"
  "scoreMap_key ''threeOfkind'' = ''threeOfkind''"
  "scoreMap_key ''fouroOkind'' = ''undefined''"
  "scoreMap_key ''fullHouse'' = ''fullHouse''"
  "scoreMap_key ''smallStraight'' = ''smallStraight''"
  "scoreMap_key ''largeStraight'' = ''largeStraight''"
  "scoreMap_key ''yahtzee'' = ''yahtzee''"
  "scoreMap_key ''chance'' = ''chance''"
  by (simp_all add: scoreMap_key_def scoreMap_def)

lemma name_getPossibleScores: "map name (getPossibleScores st) = map snd categories"
  by (simp add: getPossibleScores_def score_option_def split_def comp_def)

lemma isAvailable_getPossibleScores:
  "map isAvailable (getPossibleScores st) =
     map (\<lambda>c. scoreSheet_get (scoreSheet (gameState st)) c = Null) (map fst categories)"
  by (simp add: getPossibleScores_def score_option_def split_def comp_def)

lemma score_getPossibleScores:
  "map score (getPossibleScores st) =
     map (\<lambda>(k, local). case fetched (possibleScores st) k of Some v \<Rightarrow> v | None \<Rightarrow> local)
       (let ds = dice (gameState st) in
        [(''ones'', int (count_list ds 1) * 1),
         (''twos'', int (count_list ds 2) * 2),
         (''threes'', int (count_list ds 3) * 3),
         (''fours'', int (count_list ds 4) * 4),
         (''fives'', int (count_list ds 5) * 5),
         (''sixes'', int (count_list ds 6) * 6),
         (''threeOfkind'', 0),
         (''undefined'', 0),
         (''fullHouse'', 0),
         (''smallStraight'', 0),
         (''largeStraight'', 0),
         (''yahtzee'', if \<exists>k. count_list ds k = 5 then 50 else 0),
         (''chance'', sum_list ds)])"
proof -
  have camel: "calculateLocalScore ds ''threeOfkind'' = 0"
    "calculateLocalScore ds ''fouroOkind'' = 0"
    "calculateLocalScore ds ''fullHouse'' = 0"
    "calculateLocalScore ds ''smallStraight'' = 0"
    "calculateLocalScore ds ''largeStraight'' = 0" for ds
    by (simp_all add: no_case_local case_labels_def)
  show ?thesis
    unfolding getPossibleScores_def categories_def Let_def
    by (simp only: list.map score_of_score_option scoreMap_key_simps upper_local
        chance_local yahtzee_local_any camel prod.case)
qed

lemma safe_sums_small:
  "list_all (\<lambda>d. 1 \<le> d \<and> d \<le> 6) ds \<Longrightarrow> 0 \<le> a \<Longrightarrow>
     a + 6 * int (length ds) \<le> max_safe_integer \<Longrightarrow> safe_sums a ds"
  by (induction ds arbitrary: a) auto

lemma valid_hand_exact: "valid_hand ds \<Longrightarrow> exact_hand ds"
  using safe_sums_small [of ds 0]
  by (simp add: valid_hand_def exact_hand_def max_safe_integer_def)

section \<open>The claims\<close>

text \<open>
  C1. For every valid hand, without fetched scores, the three-of-a-kind entry scores the
  sum of the dice when some value occurs at least 3 times (else 0), and the four-of-a-kind
  entry scores the sum when some value occurs at least 4 times (else 0). The program does
  not do this: for the hand 6 6 6 6 2 both entries score 0, where the rule gives 26. The
  entries pass the identifiers \<open>threeOfkind\<close> and \<open>fouroOkind\<close> to \<open>calculateLocalScore\<close>,
  whose labels are \<open>threeofkind\<close> and \<open>fourofkind\<close>; under those labels the score is 26.
\<close>

theorem of_a_kind_entries_score_zero:
  "valid_hand [6, 6, 6, 6, 2] \<and>
   possibleScores (with_dice [6, 6, 6, 6, 2]) = None \<and>
   map (\<lambda>e. (name e, score e)) (getPossibleScores (with_dice [6, 6, 6, 6, 2])) =
     [(''Ones'', 0), (''Twos'', 2), (''Threes'', 0), (''Fours'', 0), (''Fives'', 0),
      (''Sixes'', 24), (''Three of a Kind'', 0), (''Four of a Kind'', 0), (''Full House'', 0),
      (''Small Straight'', 0), (''Large Straight'', 0), (''YAHTZEE!'', 0), (''Chance'', 26)] \<and>
   calculateLocalScore [6, 6, 6, 6, 2] ''threeofkind'' = 26 \<and>
   calculateLocalScore [6, 6, 6, 6, 2] ''fourofkind'' = 26"
  by code_simp

text \<open>
  C2. \<open>getPossibleScores\<close> returns exactly 13 entries whose category identifiers are
  exactly the 13 categories of the program, in one fixed order. The program returns 13
  entries in a fixed order, but the identifier of the eighth is \<open>fouroOkind\<close>, which is
  not a member of \<open>ScoreCategory\<close>, and the member \<open>fourOfkind\<close> is the identifier of no
  entry: the two sets differ.
\<close>

theorem category_identifiers_initial:
  "length (getPossibleScores initial_state) = 13 \<and>
   map category (getPossibleScores initial_state) =
     [''ones'', ''twos'', ''threes'', ''fours'', ''fives'', ''sixes'', ''threeOfkind'',
      ''fouroOkind'', ''fullHouse'', ''smallStraight'', ''largeStraight'', ''yahtzee'',
      ''chance''] \<and>
   ScoreCategory =
     [''ones'', ''twos'', ''threes'', ''fours'', ''fives'', ''sixes'', ''threeOfkind'',
      ''fourOfkind'', ''fullHouse'', ''smallStraight'', ''largeStraight'', ''yahtzee'',
      ''chance''] \<and>
   ''fouroOkind'' \<notin> set ScoreCategory \<and>
   ''fourOfkind'' \<notin> set (map category (getPossibleScores initial_state)) \<and>
   set (map category (getPossibleScores initial_state)) \<noteq> set ScoreCategory"
proof -
  have ids: "map category (getPossibleScores initial_state) =
     [''ones'', ''twos'', ''threes'', ''fours'', ''fives'', ''sixes'', ''threeOfkind'',
      ''fouroOkind'', ''fullHouse'', ''smallStraight'', ''largeStraight'', ''yahtzee'',
      ''chance'']"
    by (simp add: category_getPossibleScores categories_def)
  have keys: "ScoreCategory =
     [''ones'', ''twos'', ''threes'', ''fours'', ''fives'', ''sixes'', ''threeOfkind'',
      ''fourOfkind'', ''fullHouse'', ''smallStraight'', ''largeStraight'', ''yahtzee'',
      ''chance'']"
    by (simp add: ScoreCategory_def scoreMap_def)
  have a: "''fouroOkind'' \<notin> set ScoreCategory"
    unfolding keys by simp
  have b: "''fouroOkind'' \<in> set (map category (getPossibleScores initial_state))"
    unfolding ids by simp
  have c: "''fourOfkind'' \<notin> set (map category (getPossibleScores initial_state))"
    unfolding ids by simp
  from a b have "set (map category (getPossibleScores initial_state)) \<noteq> set ScoreCategory"
    by blast
  with ids keys a c show ?thesis
    by (simp only: length_getPossibleScores simp_thms)
qed

text \<open>
  C3. For every sheet and every one of the 13 categories, \<open>isAvailable\<close> of that
  category's entry is true exactly when the sheet holds \<open>null\<close> for the category. The
  program does not do this for four of a kind: in the initial state the sheet holds
  \<open>null\<close> for \<open>fourOfkind\<close>, and the entry \<open>Four of a Kind\<close> is not available, because
  the entry reads the property \<open>fouroOkind\<close>, which the sheet does not have.
\<close>

theorem four_of_a_kind_unavailable_initial:
  "fourOfkind (scoreSheet (gameState initial_state)) = None \<and>
   scoreSheet_get (scoreSheet (gameState initial_state)) ''fourOfkind'' = Null \<and>
   scoreSheet_get (scoreSheet (gameState initial_state)) ''fouroOkind'' = Undefined \<and>
   map (\<lambda>e. (name e, isAvailable e)) (getPossibleScores initial_state) =
     [(''Ones'', True), (''Twos'', True), (''Threes'', True), (''Fours'', True),
      (''Fives'', True), (''Sixes'', True), (''Three of a Kind'', True),
      (''Four of a Kind'', False), (''Full House'', True), (''Small Straight'', True),
      (''Large Straight'', True), (''YAHTZEE!'', True), (''Chance'', True)]"
  by code_simp

text \<open>
  C4. For every valid hand, without fetched scores, the full-house entry scores 25 exactly
  when one value occurs twice and another three times, and 0 otherwise. The program does
  not do this: for the hand 2 2 3 3 3 the entry scores 0. The entry passes the identifier
  \<open>fullHouse\<close> to \<open>calculateLocalScore\<close>, whose label is \<open>fullhouse\<close>; under that label
  the score is 25.
\<close>

theorem full_house_entry_score_zero:
  "valid_hand [2, 2, 3, 3, 3] \<and>
   possibleScores (with_dice [2, 2, 3, 3, 3]) = None \<and>
   map (\<lambda>e. (name e, score e)) (getPossibleScores (with_dice [2, 2, 3, 3, 3])) =
     [(''Ones'', 0), (''Twos'', 4), (''Threes'', 9), (''Fours'', 0), (''Fives'', 0),
      (''Sixes'', 0), (''Three of a Kind'', 0), (''Four of a Kind'', 0), (''Full House'', 0),
      (''Small Straight'', 0), (''Large Straight'', 0), (''YAHTZEE!'', 0), (''Chance'', 13)] \<and>
   calculateLocalScore [2, 2, 3, 3, 3] ''fullhouse'' = 25"
  by code_simp

text \<open>
  C5. For every valid hand, without fetched scores, the small-straight entry scores 30
  exactly when the distinct values in ascending order contain 1234, 2345 or 3456, and the
  large-straight entry scores 40 exactly when they are 12345 or 23456. The program does
  not do this: for the hand 1 2 3 4 5 both entries score 0. The entries pass the
  identifiers \<open>smallStraight\<close> and \<open>largeStraight\<close> to \<open>calculateLocalScore\<close>, whose labels
  are \<open>smallstraight\<close> and \<open>largestraight\<close>; under those labels the scores are 30 and 40.
\<close>

theorem straight_entries_score_zero:
  "valid_hand [1, 2, 3, 4, 5] \<and>
   possibleScores (with_dice [1, 2, 3, 4, 5]) = None \<and>
   map (\<lambda>e. (name e, score e)) (getPossibleScores (with_dice [1, 2, 3, 4, 5])) =
     [(''Ones'', 1), (''Twos'', 2), (''Threes'', 3), (''Fours'', 4), (''Fives'', 5),
      (''Sixes'', 0), (''Three of a Kind'', 0), (''Four of a Kind'', 0), (''Full House'', 0),
      (''Small Straight'', 0), (''Large Straight'', 0), (''YAHTZEE!'', 0), (''Chance'', 15)] \<and>
   calculateLocalScore [1, 2, 3, 4, 5] ''smallstraight'' = 30 \<and>
   calculateLocalScore [1, 2, 3, 4, 5] ''largestraight'' = 40"
  by code_simp

text \<open>
  C6. For every hand that does not have exactly 5 dice or has a die outside 1..6, every
  scoring operation fails with \<open>InvalidHand\<close>. The program has no such check: the hands
  1 2 3 4 and 1 2 3 4 7 are scored like any other.
\<close>

theorem invalid_hand_counterexample:
  "\<not> valid_hand [1, 2, 3, 4] \<and>
   calculateLocalScore_result [1, 2, 3, 4] ''chance'' = Inr 10 \<and>
   calculateLocalScore_result [1, 2, 3, 4] ''chance'' \<noteq> Inl InvalidHand \<and>
   getPossibleScores_result (with_dice [1, 2, 3, 4]) \<noteq> Inl InvalidHand \<and>
   \<not> valid_hand [1, 2, 3, 4, 7] \<and>
   calculateLocalScore_result [1, 2, 3, 4, 7] ''chance'' = Inr 17 \<and>
   calculateLocalScore_result [1, 2, 3, 4, 7] ''chance'' \<noteq> Inl InvalidHand \<and>
   getPossibleScores_result (with_dice [1, 2, 3, 4, 7]) \<noteq> Inl InvalidHand"
  by (simp add: valid_hand_def calculateLocalScore_result_def getPossibleScores_result_def
      chance_local)

text \<open>
  C6, amended. For every hand that does not have exactly 5 dice or has a die outside
  1..6, and whose dice and running sums are integers that doubles hold exactly, no
  scoring operation fails. \<open>calculateLocalScore\<close> returns a number for every category,
  computed from the dice as they are: for the upper section the number of dice that show
  the face, times the face; for chance the sum of the dice. \<open>getPossibleScores\<close> returns
  its 13 entries, with the identifiers and names of \<open>categories\<close> in their order, the
  availability read from the sheet, and as score the fetched one where there is one and
  otherwise the local one: for the upper section and chance as above, 50 for yahtzee when
  some value occurs exactly five times and 0 when none does, and 0 for the five entries
  whose identifiers are no case labels.
\<close>

theorem invalid_hand_scored:
  assumes "\<not> valid_hand ds" and "exact_hand ds" and "dice (gameState st) = ds"
  shows "(\<exists>n. calculateLocalScore_result ds c = Inr n) \<and>
         calculateLocalScore_result ds ''ones'' = Inr (int (count_list ds 1) * 1) \<and>
         calculateLocalScore_result ds ''twos'' = Inr (int (count_list ds 2) * 2) \<and>
         calculateLocalScore_result ds ''threes'' = Inr (int (count_list ds 3) * 3) \<and>
         calculateLocalScore_result ds ''fours'' = Inr (int (count_list ds 4) * 4) \<and>
         calculateLocalScore_result ds ''fives'' = Inr (int (count_list ds 5) * 5) \<and>
         calculateLocalScore_result ds ''sixes'' = Inr (int (count_list ds 6) * 6) \<and>
         calculateLocalScore_result ds ''chance'' = Inr (sum_list ds) \<and>
         (\<exists>opts. getPossibleScores_result st = Inr opts \<and>
            map category opts =
              [''ones'', ''twos'', ''threes'', ''fours'', ''fives'', ''sixes'', ''threeOfkind'',
               ''fouroOkind'', ''fullHouse'', ''smallStraight'', ''largeStraight'', ''yahtzee'',
               ''chance''] \<and>
            map name opts =
              [''Ones'', ''Twos'', ''Threes'', ''Fours'', ''Fives'', ''Sixes'',
               ''Three of a Kind'', ''Four of a Kind'', ''Full House'', ''Small Straight'',
               ''Large Straight'', ''YAHTZEE!'', ''Chance''] \<and>
            map isAvailable opts =
              map (\<lambda>k. scoreSheet_get (scoreSheet (gameState st)) k = Null) (map category opts) \<and>
            map score opts =
              map (\<lambda>(k, local).
                     case fetched (possibleScores st) k of Some v \<Rightarrow> v | None \<Rightarrow> local)
                [(''ones'', int (count_list ds 1) * 1),
                 (''twos'', int (count_list ds 2) * 2),
                 (''threes'', int (count_list ds 3) * 3),
                 (''fours'', int (count_list ds 4) * 4),
                 (''fives'', int (count_list ds 5) * 5),
                 (''sixes'', int (count_list ds 6) * 6),
                 (''threeOfkind'', 0),
                 (''undefined'', 0),
                 (''fullHouse'', 0),
                 (''smallStraight'', 0),
                 (''largeStraight'', 0),
                 (''yahtzee'', if \<exists>k. count_list ds k = 5 then 50 else 0),
                 (''chance'', sum_list ds)])"
proof -
  have ids: "map category (getPossibleScores st) =
              [''ones'', ''twos'', ''threes'', ''fours'', ''fives'', ''sixes'', ''threeOfkind'',
               ''fouroOkind'', ''fullHouse'', ''smallStraight'', ''largeStraight'', ''yahtzee'',
               ''chance'']"
    by (simp add: category_getPossibleScores categories_def)
  have names: "map name (getPossibleScores st) =
              [''Ones'', ''Twos'', ''Threes'', ''Fours'', ''Fives'', ''Sixes'',
               ''Three of a Kind'', ''Four of a Kind'', ''Full House'', ''Small Straight'',
               ''Large Straight'', ''YAHTZEE!'', ''Chance'']"
    by (simp add: name_getPossibleScores categories_def)
  have avail: "map isAvailable (getPossibleScores st) =
      map (\<lambda>k. scoreSheet_get (scoreSheet (gameState st)) k = Null)
        (map category (getPossibleScores st))"
    by (simp only: isAvailable_getPossibleScores category_getPossibleScores)
  note scores = score_getPossibleScores [of st, unfolded Let_def assms(3)]
  have local:
    "\<exists>n. calculateLocalScore_result ds c = Inr n"
    "calculateLocalScore_result ds ''ones'' = Inr (int (count_list ds 1) * 1)"
    "calculateLocalScore_result ds ''twos'' = Inr (int (count_list ds 2) * 2)"
    "calculateLocalScore_result ds ''threes'' = Inr (int (count_list ds 3) * 3)"
    "calculateLocalScore_result ds ''fours'' = Inr (int (count_list ds 4) * 4)"
    "calculateLocalScore_result ds ''fives'' = Inr (int (count_list ds 5) * 5)"
    "calculateLocalScore_result ds ''sixes'' = Inr (int (count_list ds 6) * 6)"
    "calculateLocalScore_result ds ''chance'' = Inr (sum_list ds)"
    by (simp_all add: calculateLocalScore_result_def upper_local chance_local)
  have entries: "\<exists>opts. getPossibleScores_result st = Inr opts \<and>
            map category opts =
              [''ones'', ''twos'', ''threes'', ''fours'', ''fives'', ''sixes'', ''threeOfkind'',
               ''fouroOkind'', ''fullHouse'', ''smallStraight'', ''largeStraight'', ''yahtzee'',
               ''chance''] \<and>
            map name opts =
              [''Ones'', ''Twos'', ''Threes'', ''Fours'', ''Fives'', ''Sixes'',
               ''Three of a Kind'', ''Four of a Kind'', ''Full House'', ''Small Straight'',
               ''Large Straight'', ''YAHTZEE!'', ''Chance''] \<and>
            map isAvailable opts =
              map (\<lambda>k. scoreSheet_get (scoreSheet (gameState st)) k = Null) (map category opts) \<and>
            map score opts =
              map (\<lambda>(k, local).
                     case fetched (possibleScores st) k of Some v \<Rightarrow> v | None \<Rightarrow> local)
                [(''ones'', int (count_list ds 1) * 1),
                 (''twos'', int (count_list ds 2) * 2),
                 (''threes'', int (count_list ds 3) * 3),
                 (''fours'', int (count_list ds 4) * 4),
                 (''fives'', int (count_list ds 5) * 5),
                 (''sixes'', int (count_list ds 6) * 6),
                 (''threeOfkind'', 0),
                 (''undefined'', 0),
                 (''fullHouse'', 0),
                 (''smallStraight'', 0),
                 (''largeStraight'', 0),
                 (''yahtzee'', if \<exists>k. count_list ds k = 5 then 50 else 0),
                 (''chance'', sum_list ds)]"
  proof (intro exI [of _ "getPossibleScores st"] conjI)
    show "getPossibleScores_result st = Inr (getPossibleScores st)"
      by (simp only: getPossibleScores_result_def)
  qed (rule ids, rule names, rule avail, rule scores)
  show ?thesis
  proof (intro conjI)
  qed (rule local entries)+
qed

theorem invalid_hand_scored_witness:
  "\<not> valid_hand [1, 2, 3, 7] \<and> exact_hand [1, 2, 3, 7] \<and>
   dice (gameState (with_dice [1, 2, 3, 7])) = [1, 2, 3, 7] \<and>
   calculateLocalScore_result [1, 2, 3, 7] ''ones'' = Inr 1 \<and>
   calculateLocalScore_result [1, 2, 3, 7] ''chance'' = Inr 13 \<and>
   (\<exists>opts. getPossibleScores_result (with_dice [1, 2, 3, 7]) = Inr opts \<and>
      map score opts = [1, 2, 3, 0, 0, 0, 0, 0, 0, 0, 0, 0, 13]) \<and>
   \<not> valid_hand [5, 5, 5, 5, 5, 5] \<and> exact_hand [5, 5, 5, 5, 5, 5] \<and>
   dice (gameState (stale_state [5, 5, 5, 5, 5, 5] remote_scores_partial)) =
     [5, 5, 5, 5, 5, 5] \<and>
   (\<exists>opts. getPossibleScores_result (stale_state [5, 5, 5, 5, 5, 5] remote_scores_partial) =
        Inr opts \<and>
      map score opts = [0, 0, 0, 0, 30, 0, 26, 0, 0, 0, 0, 0, 30])"
proof -
  have a: "\<not> valid_hand [1, 2, 3, 7]"
    by (simp add: valid_hand_def)
  have b: "exact_hand [1, 2, 3, 7]"
    by (simp add: exact_hand_def max_safe_integer_def)
  have c: "dice (gameState (with_dice [1, 2, 3, 7])) = [1, 2, 3, 7]"
    by (simp add: with_dice_def)
  have d: "fetched (possibleScores (with_dice [1, 2, 3, 7])) k = None" for k
    by (simp add: fetched_def with_dice_def initial_state_def)
  have "count_list [1, 2, 3, 7 :: int] k \<noteq> 5" for k
    using count_le_length [of "[1, 2, 3, 7 :: int]" k] by (simp del: count_list.simps)
  then have e: "(\<exists>k. count_list [1, 2, 3, 7 :: int] k = 5) = False"
    by simp
  note t = invalid_hand_scored [OF a b c, of "''yahtzee''", unfolded d e]
  have t1: "calculateLocalScore_result [1, 2, 3, 7] ''ones'' = Inr 1"
    and t2: "calculateLocalScore_result [1, 2, 3, 7] ''chance'' = Inr 13"
    using t by simp_all
  from t obtain opts where "getPossibleScores_result (with_dice [1, 2, 3, 7]) = Inr opts"
    and "map score opts = [1, 2, 3, 0, 0, 0, 0, 0, 0, 0, 0, 0, 13]"
    by (elim conjE exE) simp
  then have t3: "\<exists>opts. getPossibleScores_result (with_dice [1, 2, 3, 7]) = Inr opts \<and>
      map score opts = [1, 2, 3, 0, 0, 0, 0, 0, 0, 0, 0, 0, 13]"
    by (intro exI [of _ opts] conjI)
  have a': "\<not> valid_hand [5, 5, 5, 5, 5, 5]"
    by (simp add: valid_hand_def)
  have b': "exact_hand [5, 5, 5, 5, 5, 5]"
    by (simp add: exact_hand_def max_safe_integer_def)
  have c': "dice (gameState (stale_state [5, 5, 5, 5, 5, 5] remote_scores_partial)) =
      [5, 5, 5, 5, 5, 5]"
    by (simp add: stale_state_def)
  have d': "fetched (possibleScores (stale_state [5, 5, 5, 5, 5, 5] remote_scores_partial)) k =
      remote_scores_partial k" for k
    by (simp add: fetched_def stale_state_def)
  have e': "(\<exists>k. count_list [5, 5, 5, 5, 5, 5 :: int] k = 5) = False"
    by simp
  note u = invalid_hand_scored [OF a' b' c', of "''yahtzee''", unfolded d' e']
  from u obtain opts
    where "getPossibleScores_result (stale_state [5, 5, 5, 5, 5, 5] remote_scores_partial) =
      Inr opts"
    and "map score opts = [0, 0, 0, 0, 30, 0, 26, 0, 0, 0, 0, 0, 30]"
    by (elim conjE exE) (simp add: remote_scores_partial_def)
  then have u3: "\<exists>opts.
      getPossibleScores_result (stale_state [5, 5, 5, 5, 5, 5] remote_scores_partial) =
        Inr opts \<and>
      map score opts = [0, 0, 0, 0, 30, 0, 26, 0, 0, 0, 0, 0, 30]"
    by (intro exI [of _ opts] conjI)
  show ?thesis
    by (intro conjI a b c t1 t2 t3 a' b' c' u3)
qed

text \<open>
  C7. For every fixed hand and sheet, two calls of \<open>getPossibleScores\<close> give the same
  output: the result depends on the hand and the sheet alone, and on no cached state. The
  program reads the fetched scores kept in the state \<open>possibleScores\<close>: with the hand and
  the sheet of the initial state, the entry \<open>threeOfkind\<close> scores 5 when the fetched
  scores say so and 0 when there are none.
\<close>

theorem cached_scores_counterexample:
  "dice (gameState (with_remote remote_scores_11111)) = dice (gameState initial_state) \<and>
   scoreSheet (gameState (with_remote remote_scores_11111)) =
     scoreSheet (gameState initial_state) \<and>
   scores_of ''threeOfkind'' (getPossibleScores (with_remote remote_scores_11111)) = [5] \<and>
   scores_of ''threeOfkind'' (getPossibleScores initial_state) = [0] \<and>
   getPossibleScores (with_remote remote_scores_11111) \<noteq> getPossibleScores initial_state"
proof -
  have a: "scores_of ''threeOfkind'' (getPossibleScores (with_remote remote_scores_11111)) = [5]"
    by (simp add: scores_of_def getPossibleScores_def categories_def score_option_def
        with_remote_def remote_scores_11111_def scoreMap_key_def scoreMap_def)
  have b: "scores_of ''threeOfkind'' (getPossibleScores initial_state) = [0]"
    by (simp add: scores_of_local initial_state_def categories_def no_case_local
        case_labels_def)
  from a b
  have "getPossibleScores (with_remote remote_scores_11111) \<noteq> getPossibleScores initial_state"
    by auto
  with a b show ?thesis
    by (simp add: with_remote_def)
qed

text \<open>
  C7, amended. For every fixed hand, sheet and fetched scores (the state
  \<open>possibleScores\<close>), two calls of \<open>getPossibleScores\<close> give the same output: the result
  depends on these three alone, and on no other part of the state of the hook.
\<close>

theorem getPossibleScores_inputs:
  assumes "dice (gameState s1) = dice (gameState s2)"
    and "scoreSheet (gameState s1) = scoreSheet (gameState s2)"
    and "possibleScores s1 = possibleScores s2"
  shows "getPossibleScores s1 = getPossibleScores s2"
proof -
  have "score_option s1 e = score_option s2 e" for e
    unfolding score_option_def assms by (rule refl)
  then have "score_option s1 = score_option s2"
    by (rule ext)
  then show ?thesis
    by (simp only: getPossibleScores_def)
qed

theorem getPossibleScores_inputs_witness:
  "dice (gameState busy_state) = dice (gameState initial_state) \<and>
   scoreSheet (gameState busy_state) = scoreSheet (gameState initial_state) \<and>
   possibleScores busy_state = possibleScores initial_state \<and>
   busy_state \<noteq> initial_state \<and>
   getPossibleScores busy_state = getPossibleScores initial_state"
proof -
  have a: "dice (gameState busy_state) = dice (gameState initial_state)"
    by (simp add: busy_state_def initial_state_def)
  have b: "scoreSheet (gameState busy_state) = scoreSheet (gameState initial_state)"
    by (simp add: busy_state_def initial_state_def)
  have c: "possibleScores busy_state = possibleScores initial_state"
    by (simp add: busy_state_def initial_state_def)
  have d: "busy_state \<noteq> initial_state"
    by (simp add: busy_state_def initial_state_def)
  show ?thesis
    using a b c d getPossibleScores_inputs [OF a b c] by simp
qed

text \<open>
  C8. For every valid hand, the yahtzee entry scores 50 when all five dice show the same
  value and 0 when they do not. The program prefers a fetched score to its own
  calculation: with the dice 1 1 1 1 1 and the scores fetched for an earlier roll
  6 6 6 6 2 still in \<open>possibleScores\<close>, the entry scores 0, where
  \<open>calculateLocalScore\<close> gives 50.
\<close>

theorem yahtzee_stale_counterexample:
  "valid_hand [1, 1, 1, 1, 1] \<and>
   dice (gameState (stale_state [1, 1, 1, 1, 1] remote_scores_66662)) = [1, 1, 1, 1, 1] \<and>
   scores_of ''yahtzee'' (getPossibleScores (stale_state [1, 1, 1, 1, 1] remote_scores_66662)) =
     [0] \<and>
   calculateLocalScore [1, 1, 1, 1, 1] ''yahtzee'' = 50"
  by code_simp

text \<open>
  C8, amended. For every valid hand, \<open>calculateLocalScore\<close> for the category \<open>yahtzee\<close>
  gives 50 when all five dice show the same value and 0 when they do not, and the yahtzee
  entry carries this score whenever there is no fetched score for \<open>yahtzee\<close> (nothing has
  been fetched, or the fetched object lacks the property); when there is one, the entry
  carries the fetched score.
\<close>

theorem yahtzee_entry:
  assumes "valid_hand ds" and "dice (gameState st) = ds"
  shows "calculateLocalScore ds ''yahtzee'' = (if \<exists>v. \<forall>d \<in> set ds. d = v then 50 else 0) \<and>
         scores_of ''yahtzee'' (getPossibleScores st) =
           [case fetched (possibleScores st) ''yahtzee'' of
              Some v \<Rightarrow> v
            | None \<Rightarrow> (if \<exists>v. \<forall>d \<in> set ds. d = v then 50 else 0)]"
proof -
  from assms(1) have "length ds = 5"
    by (simp add: valid_hand_def)
  then show ?thesis
    by (simp only: scores_of_entry assms(2) yahtzee_local simp_thms)
qed

theorem yahtzee_entry_witness:
  "valid_hand [1, 1, 1, 1, 1] \<and> dice (gameState initial_state) = [1, 1, 1, 1, 1] \<and>
   fetched (possibleScores initial_state) ''yahtzee'' = None \<and>
   scores_of ''yahtzee'' (getPossibleScores initial_state) = [50] \<and>
   dice (gameState (stale_state [1, 1, 1, 1, 1] remote_scores_partial)) = [1, 1, 1, 1, 1] \<and>
   fetched (possibleScores (stale_state [1, 1, 1, 1, 1] remote_scores_partial)) ''yahtzee'' =
     None \<and>
   scores_of ''yahtzee'' (getPossibleScores (stale_state [1, 1, 1, 1, 1] remote_scores_partial)) =
     [50] \<and>
   valid_hand [6, 6, 6, 6, 2] \<and>
   dice (gameState (with_dice [6, 6, 6, 6, 2])) = [6, 6, 6, 6, 2] \<and>
   fetched (possibleScores (with_dice [6, 6, 6, 6, 2])) ''yahtzee'' = None \<and>
   scores_of ''yahtzee'' (getPossibleScores (with_dice [6, 6, 6, 6, 2])) = [0] \<and>
   dice (gameState (stale_state [6, 6, 6, 6, 2] remote_scores_11111)) = [6, 6, 6, 6, 2] \<and>
   fetched (possibleScores (stale_state [6, 6, 6, 6, 2] remote_scores_11111)) ''yahtzee'' =
     Some 50 \<and>
   scores_of ''yahtzee'' (getPossibleScores (stale_state [6, 6, 6, 6, 2] remote_scores_11111)) =
     [50]"
proof -
  have a: "valid_hand [1, 1, 1, 1, 1]"
    by (simp add: valid_hand_def)
  have b: "dice (gameState initial_state) = [1, 1, 1, 1, 1]"
    by (simp add: initial_state_def initial_gameState_def)
  have c: "fetched (possibleScores initial_state) ''yahtzee'' = None"
    by (simp add: fetched_def initial_state_def)
  have b2: "dice (gameState (stale_state [1, 1, 1, 1, 1] remote_scores_partial)) =
      [1, 1, 1, 1, 1]"
    by (simp add: stale_state_def)
  have c2: "fetched (possibleScores (stale_state [1, 1, 1, 1, 1] remote_scores_partial))
      ''yahtzee'' = None"
    by (simp add: fetched_def stale_state_def remote_scores_partial_def)
  have d: "valid_hand [6, 6, 6, 6, 2]"
    by (simp add: valid_hand_def)
  have e: "dice (gameState (with_dice [6, 6, 6, 6, 2])) = [6, 6, 6, 6, 2]"
    by (simp add: with_dice_def)
  have f: "fetched (possibleScores (with_dice [6, 6, 6, 6, 2])) ''yahtzee'' = None"
    by (simp add: fetched_def with_dice_def initial_state_def)
  have e2: "dice (gameState (stale_state [6, 6, 6, 6, 2] remote_scores_11111)) =
      [6, 6, 6, 6, 2]"
    by (simp add: stale_state_def)
  have f2: "fetched (possibleScores (stale_state [6, 6, 6, 6, 2] remote_scores_11111))
      ''yahtzee'' = Some 50"
    by (simp add: fetched_def stale_state_def remote_scores_11111_def)
  show ?thesis
    using a b c b2 c2 d e f e2 f2
      yahtzee_entry [OF a b, unfolded c] yahtzee_entry [OF a b2, unfolded c2]
      yahtzee_entry [OF d e, unfolded f] yahtzee_entry [OF d e2, unfolded f2]
    by simp
qed

text \<open>
  C9. For every valid hand and each upper-section category, the score is the number of
  dice that show the matching face, times the face, and the chance entry scores the sum
  of the five dice. \<open>calculateLocalScore\<close> does this, but an entry carries a fetched
  score when there is one: with the dice 2 2 3 3 3 and the scores fetched for an earlier
  roll 1 1 1 1 1 still in \<open>possibleScores\<close>, the entry for twos scores 0 and the chance
  entry 5, where \<open>calculateLocalScore\<close> gives 4 and 13.
\<close>

theorem upper_section_stale_counterexample:
  "valid_hand [2, 2, 3, 3, 3] \<and>
   dice (gameState (stale_state [2, 2, 3, 3, 3] remote_scores_11111)) = [2, 2, 3, 3, 3] \<and>
   scores_of ''twos'' (getPossibleScores (stale_state [2, 2, 3, 3, 3] remote_scores_11111)) =
     [0] \<and>
   int (count_list [2, 2, 3, 3, 3 :: int] 2) * 2 = 4 \<and>
   calculateLocalScore [2, 2, 3, 3, 3] ''twos'' = 4 \<and>
   scores_of ''chance'' (getPossibleScores (stale_state [2, 2, 3, 3, 3] remote_scores_11111)) =
     [5] \<and>
   sum_list [2, 2, 3, 3, 3 :: int] = 13 \<and>
   calculateLocalScore [2, 2, 3, 3, 3] ''chance'' = 13"
  by code_simp

text \<open>
  C9, amended. For every valid hand, \<open>calculateLocalScore\<close> gives for each upper-section
  category the number of dice that show the matching face, times the face, and for
  chance the sum of the five dice; the entry of the category carries this score whenever
  there is no fetched score for the category (nothing has been fetched, or the fetched
  object lacks the property), and the fetched score when there is one.
\<close>

theorem upper_section_and_chance:
  assumes "valid_hand ds" and "dice (gameState st) = ds"
  shows "calculateLocalScore ds ''ones'' = int (count_list ds 1) * 1 \<and>
         calculateLocalScore ds ''twos'' = int (count_list ds 2) * 2 \<and>
         calculateLocalScore ds ''threes'' = int (count_list ds 3) * 3 \<and>
         calculateLocalScore ds ''fours'' = int (count_list ds 4) * 4 \<and>
         calculateLocalScore ds ''fives'' = int (count_list ds 5) * 5 \<and>
         calculateLocalScore ds ''sixes'' = int (count_list ds 6) * 6 \<and>
         calculateLocalScore ds ''chance'' = sum_list ds \<and>
         scores_of ''ones'' (getPossibleScores st) =
           [case fetched (possibleScores st) ''ones'' of
              Some v \<Rightarrow> v | None \<Rightarrow> int (count_list ds 1) * 1] \<and>
         scores_of ''twos'' (getPossibleScores st) =
           [case fetched (possibleScores st) ''twos'' of
              Some v \<Rightarrow> v | None \<Rightarrow> int (count_list ds 2) * 2] \<and>
         scores_of ''threes'' (getPossibleScores st) =
           [case fetched (possibleScores st) ''threes'' of
              Some v \<Rightarrow> v | None \<Rightarrow> int (count_list ds 3) * 3] \<and>
         scores_of ''fours'' (getPossibleScores st) =
           [case fetched (possibleScores st) ''fours'' of
              Some v \<Rightarrow> v | None \<Rightarrow> int (count_list ds 4) * 4] \<and>
         scores_of ''fives'' (getPossibleScores st) =
           [case fetched (possibleScores st) ''fives'' of
              Some v \<Rightarrow> v | None \<Rightarrow> int (count_list ds 5) * 5] \<and>
         scores_of ''sixes'' (getPossibleScores st) =
           [case fetched (possibleScores st) ''sixes'' of
              Some v \<Rightarrow> v | None \<Rightarrow> int (count_list ds 6) * 6] \<and>
         scores_of ''chance'' (getPossibleScores st) =
           [case fetched (possibleScores st) ''chance'' of
              Some v \<Rightarrow> v | None \<Rightarrow> sum_list ds]"
  by (simp only: scores_of_entry assms(2) upper_local chance_local simp_thms)

theorem upper_section_and_chance_witness:
  "valid_hand [2, 2, 3, 3, 3] \<and>
   dice (gameState (with_dice [2, 2, 3, 3, 3])) = [2, 2, 3, 3, 3] \<and>
   calculateLocalScore [2, 2, 3, 3, 3] ''threes'' = 9 \<and>
   scores_of ''twos'' (getPossibleScores (with_dice [2, 2, 3, 3, 3])) = [4] \<and>
   scores_of ''threes'' (getPossibleScores (with_dice [2, 2, 3, 3, 3])) = [9] \<and>
   scores_of ''sixes'' (getPossibleScores (with_dice [2, 2, 3, 3, 3])) = [0] \<and>
   scores_of ''chance'' (getPossibleScores (with_dice [2, 2, 3, 3, 3])) = [13] \<and>
   dice (gameState (stale_state [2, 2, 3, 3, 3] remote_scores_partial)) = [2, 2, 3, 3, 3] \<and>
   scores_of ''twos'' (getPossibleScores (stale_state [2, 2, 3, 3, 3] remote_scores_partial)) =
     [4] \<and>
   scores_of ''chance'' (getPossibleScores (stale_state [2, 2, 3, 3, 3] remote_scores_partial)) =
     [13] \<and>
   dice (gameState (stale_state [2, 2, 3, 3, 3] remote_scores_66662)) = [2, 2, 3, 3, 3] \<and>
   scores_of ''twos'' (getPossibleScores (stale_state [2, 2, 3, 3, 3] remote_scores_66662)) =
     [2] \<and>
   scores_of ''chance'' (getPossibleScores (stale_state [2, 2, 3, 3, 3] remote_scores_66662)) =
     [26]"
proof -
  have a: "valid_hand [2, 2, 3, 3, 3]"
    by (simp add: valid_hand_def)
  have b: "dice (gameState (with_dice [2, 2, 3, 3, 3])) = [2, 2, 3, 3, 3]"
    by (simp add: with_dice_def)
  have c: "fetched (possibleScores (with_dice [2, 2, 3, 3, 3])) k = None" for k
    by (simp add: fetched_def with_dice_def initial_state_def)
  have b2: "dice (gameState (stale_state [2, 2, 3, 3, 3] remote_scores_partial)) =
      [2, 2, 3, 3, 3]"
    by (simp add: stale_state_def)
  have c2: "fetched (possibleScores (stale_state [2, 2, 3, 3, 3] remote_scores_partial)) k =
      remote_scores_partial k" for k
    by (simp add: fetched_def stale_state_def)
  have b3: "dice (gameState (stale_state [2, 2, 3, 3, 3] remote_scores_66662)) =
      [2, 2, 3, 3, 3]"
    by (simp add: stale_state_def)
  have c3: "fetched (possibleScores (stale_state [2, 2, 3, 3, 3] remote_scores_66662)) k =
      remote_scores_66662 k" for k
    by (simp add: fetched_def stale_state_def)
  show ?thesis
    using a b b2 b3
      upper_section_and_chance [OF a b, unfolded c]
      upper_section_and_chance [OF a b2, unfolded c2]
      upper_section_and_chance [OF a b3, unfolded c3]
    by (simp add: remote_scores_partial_def remote_scores_66662_def)
qed

text \<open>
  C10. \<open>calculateLocalScore\<close> returns a number, and raises nothing, for every array of
  dice (of any length, with any integers) and every category string; for a string that is
  none of the case labels of its \<open>switch\<close> it returns 0, and so it does for the
  identifiers \<open>threeOfkind\<close>, \<open>fourOfkind\<close>, \<open>fullHouse\<close>, \<open>smallStraight\<close> and
  \<open>largeStraight\<close> that its callers use.
\<close>

theorem calculateLocalScore_total_default:
  "(\<exists>n. calculateLocalScore_result ds c = Inr n) \<and>
   (c \<notin> set case_labels \<longrightarrow> calculateLocalScore_result ds c = Inr 0) \<and>
   calculateLocalScore_result ds ''threeOfkind'' = Inr 0 \<and>
   calculateLocalScore_result ds ''fourOfkind'' = Inr 0 \<and>
   calculateLocalScore_result ds ''fouroOkind'' = Inr 0 \<and>
   calculateLocalScore_result ds ''fullHouse'' = Inr 0 \<and>
   calculateLocalScore_result ds ''smallStraight'' = Inr 0 \<and>
   calculateLocalScore_result ds ''largeStraight'' = Inr 0"
  by (simp add: calculateLocalScore_result_def no_case_local case_labels_def)

theorem calculateLocalScore_total_default_witness:
  "''bogus'' \<notin> set case_labels \<and>
   calculateLocalScore_result [7, - 3, 0] ''bogus'' = Inr 0 \<and>
   calculateLocalScore_result [3, 3, 3, 4, 5] ''threeOfkind'' = Inr 0"
  using calculateLocalScore_total_default [of "[7, - 3, 0]" "''bogus''"]
    calculateLocalScore_total_default [of "[3, 3, 3, 4, 5]" "''bogus''"]
  by (simp add: case_labels_def)

end
